theory Spec2Isabelle
  imports Complex_Main
begin

section \<open>Numbers\<close>

text \<open>
  The optimizer computes with Python floats and with float32/float64 tensors. They are
  modelled as real numbers extended by the three special values of IEEE arithmetic.
  Sums, products and quotients are exact: there is no rounding and no overflow, and zero
  carries no sign (a zero divisor counts as a positive zero). What is kept is the
  behaviour the driver relies on without guarding it: dividing by zero does not raise in
  numpy or torch, it yields an infinity or a NaN that flows on through the iteration.
  The element-wise power and hyperbolic tangent of the tensor library are not computed
  here at all: in float32 a power underflows to zero and a tangent saturates at 1, so
  they are parameters of the model (see the collaborators below).
\<close>

datatype flt = Fin real | PInf | NInf | NaN

definition inf_of_sign :: "real \<Rightarrow> flt" where
  "inf_of_sign s = (if 0 < s then PInf else if s < 0 then NInf else NaN)"

fun fneg :: "flt \<Rightarrow> flt" where
  "fneg (Fin a) = Fin (- a)"
| "fneg PInf = NInf"
| "fneg NInf = PInf"
| "fneg NaN = NaN"

fun fadd :: "flt \<Rightarrow> flt \<Rightarrow> flt" where
  "fadd (Fin a) (Fin b) = Fin (a + b)"
| "fadd NaN _ = NaN"
| "fadd _ NaN = NaN"
| "fadd PInf NInf = NaN"
| "fadd NInf PInf = NaN"
| "fadd PInf _ = PInf"
| "fadd _ PInf = PInf"
| "fadd NInf _ = NInf"
| "fadd _ NInf = NInf"

definition fsub :: "flt \<Rightarrow> flt \<Rightarrow> flt" where
  "fsub x y = fadd x (fneg y)"

fun fmul :: "flt \<Rightarrow> flt \<Rightarrow> flt" where
  "fmul (Fin a) (Fin b) = Fin (a * b)"
| "fmul NaN _ = NaN"
| "fmul _ NaN = NaN"
| "fmul (Fin a) PInf = inf_of_sign a"
| "fmul (Fin a) NInf = inf_of_sign (- a)"
| "fmul PInf (Fin b) = inf_of_sign b"
| "fmul NInf (Fin b) = inf_of_sign (- b)"
| "fmul PInf PInf = PInf"
| "fmul PInf NInf = NInf"
| "fmul NInf PInf = NInf"
| "fmul NInf NInf = PInf"

fun fdiv :: "flt \<Rightarrow> flt \<Rightarrow> flt" where
  "fdiv (Fin a) (Fin b) = (if b = 0 then inf_of_sign a else Fin (a / b))"
| "fdiv NaN _ = NaN"
| "fdiv _ NaN = NaN"
| "fdiv (Fin a) PInf = Fin 0"
| "fdiv (Fin a) NInf = Fin 0"
| "fdiv PInf (Fin b) = (if b < 0 then NInf else PInf)"
| "fdiv NInf (Fin b) = (if b < 0 then PInf else NInf)"
| "fdiv PInf PInf = NaN"
| "fdiv PInf NInf = NaN"
| "fdiv NInf PInf = NaN"
| "fdiv NInf NInf = NaN"

text \<open>Comparisons with a NaN are false.\<close>

fun fless :: "flt \<Rightarrow> flt \<Rightarrow> bool" where
  "fless (Fin a) (Fin b) = (a < b)"
| "fless NaN _ = False"
| "fless _ NaN = False"
| "fless NInf NInf = False"
| "fless NInf _ = True"
| "fless _ NInf = False"
| "fless PInf _ = False"
| "fless _ PInf = True"

text \<open>\<open>sum\<close> of a tensor (0 on an empty one) and its \<open>mean\<close> (NaN on an empty one).\<close>

primrec fsum :: "flt list \<Rightarrow> flt" where
  "fsum [] = Fin 0"
| "fsum (x # xs) = fadd x (fsum xs)"

definition fmean :: "flt list \<Rightarrow> flt" where
  "fmean xs = fdiv (fsum xs) (Fin (real (length xs)))"

datatype error =
    ValueError | ZeroDivisionError | UnboundLocalError | AttributeError | ExternalSolverError

text \<open>
  An elementwise operation of two one-dimensional arrays: the lengths agree, or one of
  them is 1 and that element is broadcast; anything else raises.
\<close>

definition broadcast2 :: "('a \<Rightarrow> 'b \<Rightarrow> 'c) \<Rightarrow> 'a list \<Rightarrow> 'b list \<Rightarrow> error + 'c list" where
  "broadcast2 f xs ys =
     (if length xs = length ys then Inr (map2 f xs ys)
      else if length xs = 1 then Inr (map (f (hd xs)) ys)
      else if length ys = 1 then Inr (map (\<lambda>x. f x (hd ys)) xs)
      else Inl ValueError)"

section \<open>Device selection\<close>

datatype device = Cpu | Cuda0

text \<open>\<open>setDevice\<close>: the first argument is the value of \<open>torch.cuda.is_available()\<close>.\<close>

definition setDevice :: "bool \<Rightarrow> bool \<Rightarrow> device" where
  "setDevice cuda_is_available overrideGPU =
     (if cuda_is_available \<and> (overrideGPU = False) then Cuda0 else Cpu)"

text \<open>The default of the constructor's keyword argument \<open>overrideGPU\<close>.\<close>

definition overrideGPU_default :: bool where
  "overrideGPU_default = True"

section \<open>Symmetry and projection\<close>

record symAxis =
  sym_isOn :: bool
  midPt :: real

record projection =
  proj_isOn :: bool
  sharpness :: real

text \<open>
  A coordinate tensor of shape (n, 2) is a list of pairs: column 0 is \<open>map fst\<close>, column 1
  is \<open>map snd\<close>, and stacking two columns and transposing is \<open>zip\<close>. As in the source,
  \<open>symYAxis\<close> mirrors column 0 and \<open>symXAxis\<close> mirrors column 1.
\<close>

definition applySymmetry :: "symAxis \<Rightarrow> symAxis \<Rightarrow> (real \<times> real) list \<Rightarrow> (real \<times> real) list" where
  "applySymmetry symXAxis symYAxis x =
     (let xv = (if sym_isOn symYAxis
                then map (\<lambda>v. midPt symYAxis + \<bar>v - midPt symYAxis\<bar>) (map fst x)
                else map fst x);
          yv = (if sym_isOn symXAxis
                then map (\<lambda>v. midPt symXAxis + \<bar>v - midPt symXAxis\<bar>) (map snd x)
                else map snd x)
      in zip xv yv)"

text \<open>
  \<open>projectDensity\<close>; its first argument is the library's hyperbolic tangent (taken to be
  one function for \<open>np.tanh\<close> and \<open>torch.tanh\<close>).
\<close>

definition projectDensity :: "(flt \<Rightarrow> flt) \<Rightarrow> projection \<Rightarrow> flt list \<Rightarrow> flt list" where
  "projectDensity tanh_lib dp x =
     (if proj_isOn dp then
        (let b = sharpness dp;
             nmr = map (\<lambda>v. fadd (tanh_lib (Fin (0.5 * b)))
                          (tanh_lib (fmul (Fin b) (fsub v (Fin 0.5))))) x
         in map (\<lambda>n. fdiv (fmul (Fin 0.5) n) (tanh_lib (Fin (0.5 * b)))) nmr)
      else x)"

section \<open>The optimizer\<close>

text \<open>The attributes of the finite-element solver that the driver reads or writes.\<close>

record FE_state =
  Emax :: real
  penal :: real
  nelx :: nat
  nely :: nat

record history =
  compliance :: "flt list"
  vol :: "flt list"
  grayElems :: "real list"

text \<open>
  The attributes of a \<open>TopologyOptimizer\<close> that \<open>optimizeDesign\<close> uses; \<open>'p\<close> is the type
  of the network's parameters. \<open>obj0\<close> is \<open>None\<close> as long as the attribute has not been
  assigned. \<open>objective\<close> is 0.0 after construction and the objective of the latest
  iteration afterwards; the code after the loop reads it only once an iteration has run.
\<close>

record 'p TopologyOptimizer =
  FE :: FE_state
  xy :: "(real \<times> real) list"
  xyPlot :: "(real \<times> real) list"
  boundaryResolution :: nat
  desiredVolumeFraction :: real
  density :: "flt list"
  symXAxis :: symAxis
  symYAxis :: symAxis
  densityProjection :: projection
  topNet :: 'p
  objective :: flt
  obj0 :: "flt option"
  convergenceHistory :: history

text \<open>
  The collaborators whose code is outside the optimizer's module are parameters of the
  model: the network's forward pass (flattened), the sensitivities \<open>Jelem\<close> that
  \<open>FE.solve\<close> returns for a density (it may fail), the construction of the Adam
  optimizer from the parameters and a learning rate, and one training step on a loss:
  clearing the gradients, back-propagating the loss as a function of the parameters,
  clipping the gradient norm to a threshold and stepping the optimizer (\<open>'o\<close> is the
  optimizer's own state). The plotter only consumes values and is left out. Two
  functions of the tensor library are parameters as well: the element-wise hyperbolic
  tangent and the element-wise power \<open>x ** p\<close> by a float exponent (each taken to be one
  function for numpy and torch); nothing is assumed about their rounding, underflow or
  saturation.
\<close>

record ('p, 'o) collaborators =
  net_forward :: "'p \<Rightarrow> (real \<times> real) list \<Rightarrow> flt list"
  FE_solve :: "FE_state \<Rightarrow> flt list \<Rightarrow> error + flt list"
  new_optimizer :: "'p \<Rightarrow> real \<Rightarrow> 'o"
  training_step :: "'o \<Rightarrow> 'p \<Rightarrow> ('p \<Rightarrow> error + flt) \<Rightarrow> real \<Rightarrow> 'o \<times> 'p"
  lib_tanh :: "flt \<Rightarrow> flt"
  lib_pow :: "flt \<Rightarrow> real \<Rightarrow> flt"

text \<open>A title string is modelled by the three values formatted into it.\<close>

type_synonym title = "int \<times> flt \<times> flt"

text \<open>
  The object together with the local variables of \<open>optimizeDesign\<close> that live across
  iterations or are read after the loop; a local is \<open>None\<close> until it is assigned.
\<close>

record ('p, 'o) frame =
  topOpt :: "'p TopologyOptimizer"
  optimizer :: 'o
  alpha :: real
  epoch :: "int option"
  rho_np :: "flt list option"
  currentVolumeFraction :: "flt option"
  loss :: "flt option"
  relGreyElements :: "real option"
  titleStr :: "title option"

definition learningRate :: real where
  "learningRate = 0.01"

definition alphaIncrement :: real where
  "alphaIncrement = 0.05"

definition nrmThreshold :: real where
  "nrmThreshold = 0.01"

definition alphaMax :: "'p TopologyOptimizer \<Rightarrow> real" where
  "alphaMax t = 100 * desiredVolumeFraction t"

definition ebind :: "error + 'a \<Rightarrow> ('a \<Rightarrow> error + 'b) \<Rightarrow> error + 'b" where
  "ebind m f = (case m of Inl e \<Rightarrow> Inl e | Inr x \<Rightarrow> f x)"

text \<open>
  \<open>E * (rho ** e) * Jelem\<close>, elementwise; \<open>pw\<close> is the library's power, here and below.
\<close>

definition scaled_sensitivity ::
  "(flt \<Rightarrow> real \<Rightarrow> flt) \<Rightarrow> real \<Rightarrow> real \<Rightarrow> flt list \<Rightarrow> flt list \<Rightarrow> error + flt list" where
  "scaled_sensitivity pw E e rho Jelem =
     broadcast2 fmul (map (\<lambda>r. fmul (Fin E) (pw r e)) rho) Jelem"

text \<open>\<open>torch.sum(torch.div(Jelem, nn_rho ** p))\<close>.\<close>

definition compliance_sum ::
  "(flt \<Rightarrow> real \<Rightarrow> flt) \<Rightarrow> real \<Rightarrow> flt list \<Rightarrow> flt list \<Rightarrow> error + flt" where
  "compliance_sum pw p Jelem nn_rho =
     ebind (broadcast2 fdiv Jelem (map (\<lambda>r. pw r p) nn_rho)) (\<lambda>q. Inr (fsum q))"

text \<open>The objective: that sum divided by the attribute \<open>obj0\<close>.\<close>

definition objective_of ::
  "(flt \<Rightarrow> real \<Rightarrow> flt) \<Rightarrow> real \<Rightarrow> flt option \<Rightarrow> flt list \<Rightarrow> flt list \<Rightarrow> error + flt" where
  "objective_of pw p o0 Jelem nn_rho =
     ebind (compliance_sum pw p Jelem nn_rho) (\<lambda>s.
       case o0 of None \<Rightarrow> Inl AttributeError | Some d \<Rightarrow> Inr (fdiv s d))"

definition volConstraint_of :: "real \<Rightarrow> flt list \<Rightarrow> flt" where
  "volConstraint_of dvf nn_rho = fsub (fdiv (fmean nn_rho) (Fin dvf)) (Fin 1)"

definition loss_of :: "(flt \<Rightarrow> real \<Rightarrow> flt) \<Rightarrow> flt \<Rightarrow> real \<Rightarrow> flt \<Rightarrow> flt" where
  "loss_of pw obj a volConstraint = fadd obj (fmul (Fin a) (pw volConstraint 2))"

definition greyElements_of :: "flt list \<Rightarrow> nat" where
  "greyElements_of rho = length (filter (\<lambda>r. fless (Fin 0.2) r \<and> fless r (Fin 0.8)) rho)"

definition relGreyElements_of :: "real \<Rightarrow> flt list \<Rightarrow> error + real" where
  "relGreyElements_of dvf rho =
     (if length rho = 0 then Inl ZeroDivisionError
      else Inr (dvf * real (greyElements_of rho) / real (length rho)))"

text \<open>\<open>rho.reshape((a, b))\<close> raises unless the sizes agree; the plotter takes the result.\<close>

definition plotDensity :: "flt list \<Rightarrow> nat \<Rightarrow> nat \<Rightarrow> error + unit" where
  "plotDensity rho a b = (if length rho = a * b then Inr () else Inl ValueError)"

text \<open>
  The density the network yields for parameters \<open>th\<close>: the symmetry transform of the
  element centres, the flattened forward pass, the projection.
\<close>

definition nn_rho_of :: "('p, 'o) collaborators \<Rightarrow> 'p TopologyOptimizer \<Rightarrow> 'p \<Rightarrow> flt list" where
  "nn_rho_of C t th =
     projectDensity (lib_tanh C) (densityProjection t)
       (net_forward C th (applySymmetry (symXAxis t) (symYAxis t) (xy t)))"

text \<open>
  One pass through the body of the loop, for the loop index \<open>ep\<close>. The loss handed to the
  training step is a function of the parameters: the density is recomputed from them,
  while the sensitivities \<open>Jelem\<close>, the exponent, \<open>obj0\<close> and \<open>alpha\<close> are the values of
  this iteration.
\<close>

definition iteration :: "('p, 'o) collaborators \<Rightarrow> int \<Rightarrow> ('p, 'o) frame \<Rightarrow> error + ('p, 'o) frame" where
  "iteration C ep fr =
     (let t = topOpt fr;
          nn_rho = nn_rho_of C t (topNet t);
          rho = nn_rho;
          E = Emax (FE t);
          p = penal (FE t);
          dvf = desiredVolumeFraction t;
          pw = lib_pow C
      in
      ebind (FE_solve C (FE t) rho) (\<lambda>Jelem0.
      ebind (if ep = 0 then ebind (scaled_sensitivity pw E p rho Jelem0) (\<lambda>v. Inr (Some (fsum v)))
             else Inr (obj0 t)) (\<lambda>o0.
      ebind (scaled_sensitivity pw E (2 * p) rho Jelem0) (\<lambda>Jelem.
      ebind (objective_of pw p o0 Jelem nn_rho) (\<lambda>obj.
        let volConstraint = volConstraint_of dvf nn_rho;
            cvf = fmean rho;
            l = loss_of pw obj (alpha fr) volConstraint;
            loss_fn = (\<lambda>th. ebind (objective_of pw p o0 Jelem (nn_rho_of C t th)) (\<lambda>ob.
                         Inr (loss_of pw ob (alpha fr) (volConstraint_of dvf (nn_rho_of C t th)))));
            alpha' = min (alphaMax t) (alpha fr + alphaIncrement);
            stepped = training_step C (optimizer fr) (topNet t) loss_fn nrmThreshold
        in
        ebind (relGreyElements_of dvf rho) (\<lambda>rel.
          let h = convergenceHistory t;
              h' = h\<lparr>compliance := compliance h @ [obj],
                      vol := vol h @ [cvf],
                      grayElems := grayElems h @ [rel]\<rparr>;
              t' = t\<lparr>density := rho, obj0 := o0, objective := obj, topNet := snd stepped,
                      convergenceHistory := h',
                      FE := (FE t)\<lparr>penal := min 8.0 (p + 0.02)\<rparr>\<rparr>
          in
          ebind (if ep mod 20 = 0 then plotDensity rho (nelx (FE t)) (nely (FE t)) else Inr ()) (\<lambda>_.
            Inr (fr\<lparr>topOpt := t',
                     optimizer := fst stepped,
                     alpha := alpha',
                     epoch := Some ep,
                     rho_np := Some rho,
                     currentVolumeFraction := Some cvf,
                     loss := Some l,
                     relGreyElements := Some rel,
                     titleStr := (if ep mod 20 = 0 then map_option (\<lambda>d. (ep, fmul obj d, cvf)) o0
                                  else titleStr fr)\<rparr>))))))))"

text \<open>The test that guards the \<open>break\<close>, for the loop index \<open>ep\<close> and a gray fraction.\<close>

definition break_test :: "int \<Rightarrow> int \<Rightarrow> real \<Rightarrow> bool" where
  "break_test minEpochs ep g = (ep > minEpochs \<and> g < 0.025)"

text \<open>
  \<open>for epoch in range(maxEpochs)\<close> from the index \<open>ep\<close> on, with the \<open>break\<close> at the end of
  the body.
\<close>

function for_loop ::
  "('p, 'o) collaborators \<Rightarrow> int \<Rightarrow> int \<Rightarrow> int \<Rightarrow> ('p, 'o) frame \<Rightarrow> error + ('p, 'o) frame" where
  "for_loop C maxEpochs minEpochs ep fr =
     (if ep < maxEpochs then
        (case iteration C ep fr of
           Inl e \<Rightarrow> Inl e
         | Inr fr' \<Rightarrow>
             (case relGreyElements fr' of
                None \<Rightarrow> Inl UnboundLocalError
              | Some g \<Rightarrow>
                  if break_test minEpochs ep g then Inr fr'
                  else for_loop C maxEpochs minEpochs (ep + 1) fr'))
      else Inr fr)"
  by pat_completeness auto
termination
  by (relation "measure (\<lambda>(C, maxEpochs, minEpochs, ep, fr). nat (maxEpochs - ep))") auto

text \<open>The state in which the loop is entered.\<close>

definition init_frame :: "('p, 'o) collaborators \<Rightarrow> 'p TopologyOptimizer \<Rightarrow> ('p, 'o) frame" where
  "init_frame C t =
     \<lparr>topOpt = t\<lparr>convergenceHistory := \<lparr>compliance = [], vol = [], grayElems = []\<rparr>\<rparr>,
      optimizer = new_optimizer C (topNet t) learningRate,
      alpha = alphaIncrement,
      epoch = None,
      rho_np = None,
      currentVolumeFraction = None,
      loss = None,
      relGreyElements = None,
      titleStr = None\<rparr>"

text \<open>
  The code after the loop: the final snapshot, the summary line, and the snapshot at the
  plotting resolution. Reading a local that no iteration assigned raises.
\<close>

definition after_loop :: "('p, 'o) collaborators \<Rightarrow> ('p, 'o) frame \<Rightarrow> error + ('p, 'o) frame" where
  "after_loop C fr =
     (let t = topOpt fr in
      case rho_np fr of None \<Rightarrow> Inl UnboundLocalError | Some rho \<Rightarrow>
      ebind (plotDensity rho (nelx (FE t)) (nely (FE t))) (\<lambda>_.
      case titleStr fr of None \<Rightarrow> Inl UnboundLocalError | Some _ \<Rightarrow>
      case epoch fr of None \<Rightarrow> Inl UnboundLocalError | Some ep \<Rightarrow>
      case obj0 t of None \<Rightarrow> Inl AttributeError | Some o0 \<Rightarrow>
      case currentVolumeFraction fr of None \<Rightarrow> Inl UnboundLocalError | Some cvf \<Rightarrow>
      case loss fr of None \<Rightarrow> Inl UnboundLocalError | Some _ \<Rightarrow>
      case relGreyElements fr of None \<Rightarrow> Inl UnboundLocalError | Some _ \<Rightarrow>
        let x = applySymmetry (symXAxis t) (symYAxis t) (xyPlot t);
            rho' = projectDensity (lib_tanh C) (densityProjection t) (net_forward C (topNet t) x)
        in
        ebind (plotDensity rho' (nelx (FE t) * boundaryResolution t)
                 (nely (FE t) * boundaryResolution t)) (\<lambda>_.
          Inr (fr\<lparr>rho_np := Some rho',
                   titleStr := Some (ep, fmul (objective t) o0, cvf)\<rparr>))))"

definition run ::
  "('p, 'o) collaborators \<Rightarrow> 'p TopologyOptimizer \<Rightarrow> int \<Rightarrow> int \<Rightarrow> error + ('p, 'o) frame" where
  "run C t maxEpochs minEpochs =
     ebind (for_loop C maxEpochs minEpochs 0 (init_frame C t)) (after_loop C)"

text \<open>\<open>optimizeDesign\<close> returns the convergence history, or raises.\<close>

definition optimizeDesign ::
  "('p, 'o) collaborators \<Rightarrow> 'p TopologyOptimizer \<Rightarrow> int \<Rightarrow> int \<Rightarrow> error + history" where
  "optimizeDesign C t maxEpochs minEpochs =
     ebind (run C t maxEpochs minEpochs) (\<lambda>fr. Inr (convergenceHistory (topOpt fr)))"

section \<open>Notions used to state the properties\<close>

text \<open>
  The state after the first \<open>n\<close> passes through the body of the loop (the indices
  \<open>0, \<dots>, n - 1\<close>), whether or not the loop would have stopped earlier.
\<close>

primrec frame_after :: "('p, 'o) collaborators \<Rightarrow> nat \<Rightarrow> ('p, 'o) frame \<Rightarrow> error + ('p, 'o) frame" where
  "frame_after C 0 fr = Inr fr"
| "frame_after C (Suc n) fr = ebind (frame_after C n fr) (iteration C (int n))"

text \<open>
  The gray-element fraction in the words of the specification: the desired volume
  fraction times the number of elements whose density lies strictly between 0.2 and
  0.8, divided by the number of elements; and the condition under which the loop is to
  stop after an iteration, read from the state that iteration leaves. (On an empty
  density the code raises; every state an iteration leaves has a non-empty one.)
\<close>

definition gray_fraction_spec :: "real \<Rightarrow> flt list \<Rightarrow> real" where
  "gray_fraction_spec dvf rho =
     dvf * real (length (filter (\<lambda>r. case r of Fin x \<Rightarrow> 0.2 < x \<and> x < 0.8 | _ \<Rightarrow> False) rho))
       / real (length rho)"

definition exit_condition_spec :: "int \<Rightarrow> ('p, 'o) frame \<Rightarrow> bool" where
  "exit_condition_spec minEpochs f =
     (case (epoch f, rho_np f) of
        (Some e, Some rho) \<Rightarrow>
          minEpochs < e \<and> gray_fraction_spec (desiredVolumeFraction (topOpt f)) rho < 0.025
      | _ \<Rightarrow> False)"

text \<open>
  The sum \<open>sum(Emax * rho^penal * sensitivity)\<close> of the specification, in real arithmetic:
  \<open>as\<close> holds the powers \<open>rho^penal\<close> and \<open>js\<close> the sensitivities, element by element.
\<close>

definition weighted_sum_spec :: "real \<Rightarrow> real list \<Rightarrow> real list \<Rightarrow> real" where
  "weighted_sum_spec E as js = sum_list (map2 (\<lambda>a j. E * a * j) as js)"


text \<open>The volume fraction of the specification: the average density over the elements.\<close>

definition volume_fraction_spec :: "real list \<Rightarrow> real" where
  "volume_fraction_spec xs = sum_list xs / real (length xs)"

section \<open>An example configuration\<close>

text \<open>
  A power and a hyperbolic tangent for the example, exact on the reals. \<open>fpow x p\<close> is the
  exponential of \<open>p * ln x\<close> on a positive base; on a zero base it is 0, 1 or infinity by
  the sign of \<open>p\<close>; on a negative base it is a number only when \<open>p\<close> is integral, and NaN
  otherwise. They serve only to evaluate the model on the example below, whose densities
  are 0, 1/2 and 1 and where the base 1/2 meets integral exponents up to 20 only: on
  these float32 computes the same powers. The properties are stated for every power and
  tangent the library may compute.
\<close>

fun ftanh :: "flt \<Rightarrow> flt" where
  "ftanh (Fin a) = Fin (tanh a)"
| "ftanh PInf = Fin 1"
| "ftanh NInf = Fin (- 1)"
| "ftanh NaN = NaN"

definition is_integral :: "real \<Rightarrow> bool" where
  "is_integral p = (p = of_int \<lfloor>p\<rfloor>)"

definition odd_integral :: "real \<Rightarrow> bool" where
  "odd_integral p = (is_integral p \<and> odd \<lfloor>p\<rfloor>)"

fun fpow :: "flt \<Rightarrow> real \<Rightarrow> flt" where
  "fpow (Fin x) p =
     (if 0 < x then Fin (x powr p)
      else if x = 0 then (if 0 < p then Fin 0 else if p = 0 then Fin 1 else PInf)
      else if is_integral p then Fin ((if odd_integral p then - 1 else 1) * ((- x) powr p))
      else NaN)"
| "fpow PInf p = (if 0 < p then PInf else if p = 0 then Fin 1 else Fin 0)"
| "fpow NInf p =
     (if p = 0 then Fin 1 else if p < 0 then Fin 0
      else if odd_integral p then NInf else PInf)"
| "fpow NaN p = (if p = 0 then Fin 1 else NaN)"

text \<open>
  A small configuration to run the model on: a mesh of two elements by one with element
  centres at the abscissas 1 and 2, a network whose density at a point is its parameter
  times the abscissa, capped at 1, a solver whose sensitivity is twice the density plus
  one, and a training step that doubles the parameter up to 1. The densities are 1/2
  and 1 in the first iteration and 1 and 1 from the second on.
\<close>

definition example_collaborators :: "(real, unit) collaborators" where
  "example_collaborators =
     \<lparr>net_forward = (\<lambda>th cs. map (\<lambda>c. Fin (min 1 (th * fst c))) cs),
      FE_solve = (\<lambda>fe rho. Inr (map (\<lambda>r. fadd (fmul (Fin 2) r) (Fin 1)) rho)),
      new_optimizer = (\<lambda>th lr. ()),
      training_step = (\<lambda>opt th loss_fn thr. (opt, min 1 (2 * th))),
      lib_tanh = ftanh,
      lib_pow = fpow\<rparr>"

definition example_optimizer :: "real TopologyOptimizer" where
  "example_optimizer =
     \<lparr>FE = \<lparr>Emax = 2, penal = 2, nelx = 2, nely = 1\<rparr>,
      xy = [(1, 0), (2, 0)],
      xyPlot = [(1, 0), (1, 0), (1, 0), (1, 0), (1, 0), (1, 0), (1, 0), (1, 0), (1, 0),
                (2, 0), (2, 0), (2, 0), (2, 0), (2, 0), (2, 0), (2, 0), (2, 0), (2, 0)],
      boundaryResolution = 3,
      desiredVolumeFraction = 0.5,
      density = [Fin 0.5, Fin 0.5],
      symXAxis = \<lparr>sym_isOn = False, midPt = 0\<rparr>,
      symYAxis = \<lparr>sym_isOn = False, midPt = 0\<rparr>,
      densityProjection = \<lparr>proj_isOn = False, sharpness = 8\<rparr>,
      topNet = 0.5,
      objective = Fin 0,
      obj0 = None,
      convergenceHistory = \<lparr>compliance = [], vol = [], grayElems = []\<rparr>\<rparr>"


definition high_penal_optimizer :: "real TopologyOptimizer" where
  "high_penal_optimizer = example_optimizer\<lparr>FE := \<lparr>Emax = 2, penal = 10, nelx = 2, nely = 1\<rparr>\<rparr>"

definition capped_optimizer :: "real TopologyOptimizer" where
  "capped_optimizer = example_optimizer\<lparr>FE := \<lparr>Emax = 2, penal = 8, nelx = 2, nely = 1\<rparr>\<rparr>"

definition small_volume_optimizer :: "real TopologyOptimizer" where
  "small_volume_optimizer = example_optimizer\<lparr>desiredVolumeFraction := 0.0001\<rparr>"

section \<open>Properties of the transforms and of the device selection\<close>

text \<open>
  C9. \<open>setDevice\<close> returns the CPU device whenever \<open>overrideGPU\<close> is true, which is the
  constructor's default, whether or not CUDA is available; it returns the GPU device
  exactly when CUDA is available and \<open>overrideGPU\<close> is false.
\<close>

theorem setDevice_cpu_when_overridden:
  "setDevice avail True = Cpu \<and> setDevice avail overrideGPU_default = Cpu
   \<and> (setDevice avail ov = Cuda0) = (avail \<and> ov = False)"
  by (simp add: setDevice_def overrideGPU_default_def)

theorem setDevice_cpu_when_overridden_witness:
  "setDevice True True = Cpu \<and> setDevice True overrideGPU_default = Cpu
   \<and> (setDevice True False = Cuda0) = (True \<and> False = False)"
  using setDevice_cpu_when_overridden [of True False] by simp

text \<open>
  C7. With projection switched off \<open>projectDensity\<close> returns its input, whatever the
  tensor holds, and with both symmetry axes switched off \<open>applySymmetry\<close> returns the
  coordinate sequence it was given.
\<close>

theorem transforms_identity_when_off:
  "projectDensity tanh_lib (dp\<lparr>proj_isOn := False\<rparr>) x = x
   \<and> applySymmetry (sx\<lparr>sym_isOn := False\<rparr>) (sy\<lparr>sym_isOn := False\<rparr>) coords = coords"
  by (simp add: projectDensity_def applySymmetry_def zip_map_fst_snd)

theorem transforms_identity_when_off_witness:
  "projectDensity ftanh \<lparr>proj_isOn = False, sharpness = 8\<rparr> [Fin 0.3, NaN] = [Fin 0.3, NaN]
   \<and> applySymmetry \<lparr>sym_isOn = False, midPt = 1\<rparr> \<lparr>sym_isOn = False, midPt = 2\<rparr> [(0, 3), (5, 1)]
       = [(0, 3), (5, 1)]"
  using transforms_identity_when_off [of ftanh "\<lparr>proj_isOn = False, sharpness = 8\<rparr>" "[Fin 0.3, NaN]"
      "\<lparr>sym_isOn = False, midPt = 1\<rparr>" "\<lparr>sym_isOn = False, midPt = 2\<rparr>" "[(0, 3), (5, 1)]"]
  by simp

text \<open>
  With only \<open>symXAxis\<close> switched on, with midpoint 1, the coordinate pair (0, 0) keeps its
  first coordinate 0, which is not 1 + |0 - 1|, and the pairs (2 * 1 - 0, 0) and (0, 0)
  are mapped to different results.
\<close>

theorem symXAxis_first_coordinate_counterexample:
  "fst (hd (applySymmetry \<lparr>sym_isOn = True, midPt = 1\<rparr> \<lparr>sym_isOn = False, midPt = 0\<rparr> [(0, 0)]))
     \<noteq> 1 + \<bar>0 - 1\<bar>
   \<and> applySymmetry \<lparr>sym_isOn = True, midPt = 1\<rparr> \<lparr>sym_isOn = False, midPt = 0\<rparr> [(2 * 1 - 0, 0)]
     \<noteq> applySymmetry \<lparr>sym_isOn = True, midPt = 1\<rparr> \<lparr>sym_isOn = False, midPt = 0\<rparr> [(0, 0)]"
  by (simp add: applySymmetry_def)

text \<open>
  C5, amended. For every coordinate pair (x, y): when \<open>symYAxis\<close> is switched on with
  midpoint m, the first coordinate of the result is m + |x - m| and the pairs
  (2m - x, y) and (x, y) have the same result; when \<open>symXAxis\<close> is switched on with
  midpoint m, it is the second coordinate that becomes m + |y - m|, and the pairs
  (x, 2m - y) and (x, y) have the same result.
\<close>

theorem applySymmetry_mirrors:
  "(sym_isOn sy \<longrightarrow>
      fst (hd (applySymmetry sx sy [(x, y)])) = midPt sy + \<bar>x - midPt sy\<bar>
      \<and> applySymmetry sx sy [(2 * midPt sy - x, y)] = applySymmetry sx sy [(x, y)])
   \<and> (sym_isOn sx \<longrightarrow>
      snd (hd (applySymmetry sx sy [(x, y)])) = midPt sx + \<bar>y - midPt sx\<bar>
      \<and> applySymmetry sx sy [(x, 2 * midPt sx - y)] = applySymmetry sx sy [(x, y)])"
  by (auto simp add: applySymmetry_def Let_def)

theorem applySymmetry_mirrors_witness:
  "fst (hd (applySymmetry \<lparr>sym_isOn = True, midPt = 1\<rparr> \<lparr>sym_isOn = True, midPt = 2\<rparr> [(0, 0)])) = 4
   \<and> applySymmetry \<lparr>sym_isOn = True, midPt = 1\<rparr> \<lparr>sym_isOn = True, midPt = 2\<rparr> [(4, 0)]
       = applySymmetry \<lparr>sym_isOn = True, midPt = 1\<rparr> \<lparr>sym_isOn = True, midPt = 2\<rparr> [(0, 0)]
   \<and> snd (hd (applySymmetry \<lparr>sym_isOn = True, midPt = 1\<rparr> \<lparr>sym_isOn = True, midPt = 2\<rparr> [(0, 0)])) = 2
   \<and> applySymmetry \<lparr>sym_isOn = True, midPt = 1\<rparr> \<lparr>sym_isOn = True, midPt = 2\<rparr> [(0, 2)]
       = applySymmetry \<lparr>sym_isOn = True, midPt = 1\<rparr> \<lparr>sym_isOn = True, midPt = 2\<rparr> [(0, 0)]"
  using applySymmetry_mirrors [of "\<lparr>sym_isOn = True, midPt = 2\<rparr>" "\<lparr>sym_isOn = True, midPt = 1\<rparr>" 0 0]
  by simp


section \<open>The loop body and the loop\<close>

declare for_loop.simps [simp del]

lemma ebind_Inr_iff: "(ebind m f = Inr y) = (\<exists>x. m = Inr x \<and> f x = Inr y)"
  by (cases m) (simp_all add: ebind_def)

lemma for_loop_unfold:
  assumes "for_loop C maxE minE ep fr = Inr fr'" and "ep < maxE"
  shows "\<exists>f1 g. iteration C ep fr = Inr f1 \<and> relGreyElements f1 = Some g
           \<and> (if break_test minE ep g then fr' = f1
               else for_loop C maxE minE (ep + 1) f1 = Inr fr')"
  using assms by (subst (asm) for_loop.simps) (auto split: sum.splits option.splits if_splits)

lemma for_loop_done: "\<not> ep < maxE \<Longrightarrow> for_loop C maxE minE ep fr = Inr fr"
  by (subst for_loop.simps) simp

lemma for_loop_frame_after:
  assumes "for_loop C maxE minE ep fr = Inr fr'" and "0 \<le> ep" and "ep < maxE"
    and "frame_after C (nat ep) fr0 = Inr fr"
  shows "\<exists>n. nat ep < n \<and> int n \<le> maxE \<and> frame_after C n fr0 = Inr fr'
          \<and> (\<forall>k. nat ep < k \<and> k < n \<longrightarrow>
                (\<exists>f g. frame_after C k fr0 = Inr f \<and> relGreyElements f = Some g
                   \<and> \<not> break_test minE (int k - 1) g))
          \<and> (\<exists>g. relGreyElements fr' = Some g \<and> (int n < maxE \<longrightarrow> break_test minE (int n - 1) g))"
  using assms
proof (induction C maxE minE ep fr rule: for_loop.induct)
  case (1 C maxE minE ep fr)
  from for_loop_unfold [OF "1.prems"(1) "1.prems"(3)]
  obtain f1 g where it: "iteration C ep fr = Inr f1" and g: "relGreyElements f1 = Some g"
    and rest: "if break_test minE ep g then fr' = f1
               else for_loop C maxE minE (ep + 1) f1 = Inr fr'"
    by blast
  have suc: "Suc (nat ep) = nat (ep + 1)" using "1.prems"(2) by simp
  have fa: "frame_after C (Suc (nat ep)) fr0 = Inr f1"
    using it "1.prems"(2,4) by (simp add: ebind_def)
  have idx: "int (Suc (nat ep)) - 1 = ep" using "1.prems"(2) by simp
  show ?case
  proof (cases "break_test minE ep g")
    case True
    with rest have "fr' = f1" by simp
    with fa g True idx "1.prems"(2,3) show ?thesis
      by (intro exI [of _ "Suc (nat ep)"]) auto
  next
    case False
    with rest have loop: "for_loop C maxE minE (ep + 1) f1 = Inr fr'" by simp
    show ?thesis
    proof (cases "ep + 1 < maxE")
      case True
      from "1.IH" [OF "1.prems"(3) it g False loop _ True] fa suc "1.prems"(2)
      obtain n where n: "nat (ep + 1) < n" "int n \<le> maxE" "frame_after C n fr0 = Inr fr'"
        and mid: "\<forall>k. nat (ep + 1) < k \<and> k < n \<longrightarrow>
                (\<exists>f g. frame_after C k fr0 = Inr f \<and> relGreyElements f = Some g
                   \<and> \<not> break_test minE (int k - 1) g)"
        and last: "\<exists>g. relGreyElements fr' = Some g \<and> (int n < maxE \<longrightarrow> break_test minE (int n - 1) g)"
        by auto
      have "\<forall>k. nat ep < k \<and> k < n \<longrightarrow>
                (\<exists>f g. frame_after C k fr0 = Inr f \<and> relGreyElements f = Some g
                   \<and> \<not> break_test minE (int k - 1) g)"
      proof (intro allI impI)
        fix k assume k: "nat ep < k \<and> k < n"
        show "\<exists>f g. frame_after C k fr0 = Inr f \<and> relGreyElements f = Some g
                   \<and> \<not> break_test minE (int k - 1) g"
        proof (cases "k = Suc (nat ep)")
          case True
          with fa g False idx show ?thesis by auto
        next
          case False
          with k suc have "nat (ep + 1) < k \<and> k < n" by linarith
          with mid show ?thesis by blast
        qed
      qed
      with n last suc show ?thesis
        by (intro exI [of _ n]) auto
    next
      case False
      with loop have "fr' = f1" by (simp add: for_loop_done)
      with fa g False idx "1.prems"(2,3) show ?thesis
        by (intro exI [of _ "Suc (nat ep)"]) auto
    qed
  qed
qed


lemma iteration_Inr:
  assumes "iteration C ep fr = Inr fr'"
  shows "\<exists>J o0 Jelem obj rel.
      FE_solve C (FE (topOpt fr)) (nn_rho_of C (topOpt fr) (topNet (topOpt fr))) = Inr J
    \<and> (if ep = 0
        then ebind (scaled_sensitivity (lib_pow C) (Emax (FE (topOpt fr))) (penal (FE (topOpt fr)))
                (nn_rho_of C (topOpt fr) (topNet (topOpt fr))) J) (\<lambda>v. Inr (Some (fsum v)))
        else Inr (obj0 (topOpt fr))) = Inr o0
    \<and> scaled_sensitivity (lib_pow C) (Emax (FE (topOpt fr))) (2 * penal (FE (topOpt fr)))
          (nn_rho_of C (topOpt fr) (topNet (topOpt fr))) J = Inr Jelem
    \<and> objective_of (lib_pow C) (penal (FE (topOpt fr))) o0 Jelem (nn_rho_of C (topOpt fr) (topNet (topOpt fr))) = Inr obj
    \<and> relGreyElements_of (desiredVolumeFraction (topOpt fr)) (nn_rho_of C (topOpt fr) (topNet (topOpt fr))) = Inr rel
    \<and> obj0 (topOpt fr') = o0
    \<and> objective (topOpt fr') = obj
    \<and> FE (topOpt fr') = (FE (topOpt fr))\<lparr>penal := min 8.0 (penal (FE (topOpt fr)) + 0.02)\<rparr>
    \<and> desiredVolumeFraction (topOpt fr') = desiredVolumeFraction (topOpt fr)
    \<and> alpha fr' = min (alphaMax (topOpt fr)) (alpha fr + alphaIncrement)
    \<and> epoch fr' = Some ep
    \<and> rho_np fr' = Some (nn_rho_of C (topOpt fr) (topNet (topOpt fr)))
    \<and> relGreyElements fr' = Some rel
    \<and> currentVolumeFraction fr' = Some (fmean (nn_rho_of C (topOpt fr) (topNet (topOpt fr))))
    \<and> compliance (convergenceHistory (topOpt fr')) = compliance (convergenceHistory (topOpt fr)) @ [obj]
    \<and> vol (convergenceHistory (topOpt fr'))
        = vol (convergenceHistory (topOpt fr)) @ [fmean (nn_rho_of C (topOpt fr) (topNet (topOpt fr)))]
    \<and> grayElems (convergenceHistory (topOpt fr')) = grayElems (convergenceHistory (topOpt fr)) @ [rel]"
  using assms unfolding iteration_def Let_def ebind_Inr_iff
  by (elim exE conjE) clarsimp

lemma grey_count_spec:
  "greyElements_of rho
     = length (filter (\<lambda>r. case r of Fin x \<Rightarrow> 0.2 < x \<and> x < 0.8 | _ \<Rightarrow> False) rho)"
proof -
  have "(fless (Fin 0.2) r \<and> fless r (Fin 0.8))
          = (case r of Fin x \<Rightarrow> 0.2 < x \<and> x < 0.8 | _ \<Rightarrow> False)" for r
    by (cases r) simp_all
  then show ?thesis by (simp add: greyElements_of_def)
qed

lemma relGrey_spec:
  "relGreyElements_of dvf rho = Inr rel \<Longrightarrow> rel = gray_fraction_spec dvf rho \<and> rho \<noteq> []"
  by (auto simp add: relGreyElements_of_def gray_fraction_spec_def grey_count_spec split: if_splits)

lemma iteration_exit:
  assumes "iteration C ep fr = Inr fr'" and "relGreyElements fr' = Some g"
  shows "break_test minE ep g = exit_condition_spec minE fr'"
proof -
  from iteration_Inr [OF assms(1)] obtain rel where
    "relGreyElements_of (desiredVolumeFraction (topOpt fr)) (nn_rho_of C (topOpt fr) (topNet (topOpt fr))) = Inr rel"
    "desiredVolumeFraction (topOpt fr') = desiredVolumeFraction (topOpt fr)"
    "epoch fr' = Some ep" "rho_np fr' = Some (nn_rho_of C (topOpt fr) (topNet (topOpt fr)))"
    "relGreyElements fr' = Some rel"
    by blast
  with assms(2) relGrey_spec [of "desiredVolumeFraction (topOpt fr)"
      "nn_rho_of C (topOpt fr) (topNet (topOpt fr))" rel]
  show ?thesis by (simp add: break_test_def exit_condition_spec_def)
qed

lemma frame_after_Suc:
  "frame_after C (Suc n) fr0 = Inr f \<Longrightarrow>
     \<exists>f'. frame_after C n fr0 = Inr f' \<and> iteration C (int n) f' = Inr f"
  by (simp add: ebind_Inr_iff)

lemma frame_after_epoch:
  "frame_after C (Suc n) fr0 = Inr f \<Longrightarrow> epoch f = Some (int n)"
  using frame_after_Suc iteration_Inr by blast

lemma frame_after_history:
  "frame_after C n fr0 = Inr f \<Longrightarrow>
     length (compliance (convergenceHistory (topOpt f)))
       = length (compliance (convergenceHistory (topOpt fr0))) + n
   \<and> length (vol (convergenceHistory (topOpt f)))
       = length (vol (convergenceHistory (topOpt fr0))) + n
   \<and> length (grayElems (convergenceHistory (topOpt f)))
       = length (grayElems (convergenceHistory (topOpt fr0))) + n"
proof (induction n arbitrary: f)
  case 0
  then show ?case by simp
next
  case (Suc n)
  from frame_after_Suc [OF Suc.prems] obtain f' where
    f': "frame_after C n fr0 = Inr f'" and it: "iteration C (int n) f' = Inr f" by blast
  from iteration_Inr [OF it] Suc.IH [OF f'] show ?case by auto
qed

lemma after_loop_keeps:
  "after_loop C fr = Inr fr' \<Longrightarrow> topOpt fr' = topOpt fr \<and> epoch fr' = epoch fr"
  by (auto simp add: after_loop_def Let_def ebind_Inr_iff split: option.splits)

lemma after_loop_reads:
  "after_loop C fr = Inr fr' \<Longrightarrow> rho_np fr \<noteq> None"
  by (auto simp add: after_loop_def Let_def split: option.splits)

lemma iteration_epoch:
  assumes "iteration C ep fr = Inr fr'"
  shows "epoch fr' = Some ep"
  using iteration_Inr [OF assms] by (elim exE conjE)

lemma frame_after_exit:
  assumes "frame_after C (Suc j) fr0 = Inr f" and "relGreyElements f = Some g"
  shows "epoch f = Some (int j) \<and> break_test minE (int j) g = exit_condition_spec minE f"
proof -
  from frame_after_Suc [OF assms(1)] obtain f' where it: "iteration C (int j) f' = Inr f"
    by (elim exE conjE)
  from iteration_epoch [OF it] iteration_exit [OF it assms(2)] show ?thesis
    by (intro conjI)
qed

lemma run_Inr:
  assumes "run C t maxEpochs minEpochs = Inr fr'"
  shows "\<exists>fr. for_loop C maxEpochs minEpochs 0 (init_frame C t) = Inr fr
           \<and> after_loop C fr = Inr fr'"
  using assms by (simp add: run_def ebind_Inr_iff)

lemma run_needs_iteration:
  assumes "run C t maxEpochs minEpochs = Inr fr'"
  shows "0 < maxEpochs"
proof (rule ccontr)
  assume "\<not> 0 < maxEpochs"
  then have "for_loop C maxEpochs minEpochs 0 (init_frame C t) = Inr (init_frame C t)"
    by (rule for_loop_done)
  with run_Inr [OF assms] have "after_loop C (init_frame C t) = Inr fr'" by simp
  from after_loop_reads [OF this] show False by (simp add: init_frame_def)
qed

lemma run_no_iteration:
  "\<not> 0 < maxEpochs \<Longrightarrow> run C t maxEpochs minEpochs = Inl UnboundLocalError"
  by (simp add: run_def for_loop_done ebind_def after_loop_def init_frame_def)

lemma fsum_Fin: "fsum (map Fin ys) = Fin (sum_list ys)"
  by (induction ys) simp_all

lemma fmean_Fin: "xs \<noteq> [] \<Longrightarrow> fmean (map Fin xs) = Fin (volume_fraction_spec xs)"
  by (simp add: fmean_def fsum_Fin volume_fraction_spec_def)





lemma weighted_real:
  assumes "map (\<lambda>r. pw r p) rho = map Fin as" and "J = map Fin js" and "length js = length as"
  shows "broadcast2 fmul (map (\<lambda>r. fmul (Fin E) (pw r p)) rho) J
           = Inr (map Fin (map2 (\<lambda>a j. E * a * j) as js))"
proof -
  have "map (\<lambda>r. fmul (Fin E) (pw r p)) rho = map (fmul (Fin E)) (map (\<lambda>r. pw r p) rho)"
    by (simp add: comp_def)
  also have "\<dots> = map (\<lambda>a. Fin (E * a)) as" by (simp add: assms(1) comp_def)
  finally have l: "map (\<lambda>r. fmul (Fin E) (pw r p)) rho = map (\<lambda>a. Fin (E * a)) as" .
  have "map2 fmul (map (\<lambda>a. Fin (E * a)) as) (map Fin js) = map Fin (map2 (\<lambda>a j. E * a * j) as js)"
    using assms(3) [symmetric] by (induction as js rule: list_induct2) simp_all
  with l assms(2,3) show ?thesis by (simp add: broadcast2_def)
qed

lemma weighted_real_sum:
  assumes "map (\<lambda>r. pw r p) rho = map Fin as" and "J = map Fin js" and "length js = length as"
    and "broadcast2 fmul (map (\<lambda>r. fmul (Fin E) (pw r p)) rho) J = Inr v"
  shows "fsum v = Fin (weighted_sum_spec E as js)"
proof -
  from weighted_real [where pw = pw and p = p and E = E, OF assms(1,2,3)] assms(4)
  have "v = map Fin (map2 (\<lambda>a j. E * a * j) as js)" by simp
  then show ?thesis by (simp only: fsum_Fin weighted_sum_spec_def)
qed

lemma iteration_schedule:
  assumes "iteration C ep fr = Inr fr'"
  shows "penal (FE (topOpt fr')) = min 8.0 (penal (FE (topOpt fr)) + 0.02)
       \<and> alpha fr' = min (alphaMax (topOpt fr)) (alpha fr + alphaIncrement)
       \<and> desiredVolumeFraction (topOpt fr') = desiredVolumeFraction (topOpt fr)"
proof -
  from iteration_Inr [OF assms] have
    "FE (topOpt fr') = (FE (topOpt fr))\<lparr>penal := min 8.0 (penal (FE (topOpt fr)) + 0.02)\<rparr>"
    "alpha fr' = min (alphaMax (topOpt fr)) (alpha fr + alphaIncrement)"
    "desiredVolumeFraction (topOpt fr') = desiredVolumeFraction (topOpt fr)"
    by blast+
  then show ?thesis by simp
qed

lemma iteration_obj0_first:
  assumes "iteration C 0 fr = Inr fr'"
  shows "\<exists>J v. FE_solve C (FE (topOpt fr)) (nn_rho_of C (topOpt fr) (topNet (topOpt fr))) = Inr J
          \<and> scaled_sensitivity (lib_pow C) (Emax (FE (topOpt fr))) (penal (FE (topOpt fr)))
               (nn_rho_of C (topOpt fr) (topNet (topOpt fr))) J = Inr v
          \<and> obj0 (topOpt fr') = Some (fsum v)"
proof -
  from iteration_Inr [OF assms] obtain J o0 where
    J: "FE_solve C (FE (topOpt fr)) (nn_rho_of C (topOpt fr) (topNet (topOpt fr))) = Inr J"
    and o: "ebind (scaled_sensitivity (lib_pow C) (Emax (FE (topOpt fr))) (penal (FE (topOpt fr)))
                (nn_rho_of C (topOpt fr) (topNet (topOpt fr))) J) (\<lambda>v. Inr (Some (fsum v))) = Inr o0"
    and o0: "obj0 (topOpt fr') = o0"
    by auto
  from o obtain v where "scaled_sensitivity (lib_pow C) (Emax (FE (topOpt fr))) (penal (FE (topOpt fr)))
                (nn_rho_of C (topOpt fr) (topNet (topOpt fr))) J = Inr v" "o0 = Some (fsum v)"
    by (auto simp add: ebind_Inr_iff)
  with J o0 show ?thesis by blast
qed

lemma iteration_obj0_later:
  assumes "iteration C ep fr = Inr fr'" and "ep \<noteq> 0"
  shows "obj0 (topOpt fr') = obj0 (topOpt fr)"
proof -
  from iteration_Inr [OF assms(1)] assms(2) obtain o0 where
    "Inr (obj0 (topOpt fr)) = (Inr o0 :: error + flt option)" "obj0 (topOpt fr') = o0"
    by auto
  then show ?thesis by simp
qed

lemma frame_after_obj0:
  assumes "frame_after C (Suc n) fr0 = Inr f"
  shows "\<exists>f1. iteration C 0 fr0 = Inr f1 \<and> obj0 (topOpt f) = obj0 (topOpt f1)"
  using assms
proof (induction n arbitrary: f)
  case 0
  then show ?case by (simp add: ebind_def)
next
  case (Suc n)
  from frame_after_Suc [OF Suc.prems] obtain f' where
    f': "frame_after C (Suc n) fr0 = Inr f'" and it: "iteration C (int (Suc n)) f' = Inr f"
    by blast
  have "int (Suc n) \<noteq> 0" by simp
  from iteration_obj0_later [OF it this] Suc.IH [OF f'] show ?case by simp
qed

lemma run_obj0:
  assumes "run C t maxEpochs minEpochs = Inr g"
  shows "\<exists>f1. iteration C 0 (init_frame C t) = Inr f1 \<and> obj0 (topOpt g) = obj0 (topOpt f1)"
proof -
  from run_Inr [OF assms] obtain fr where
    loop: "for_loop C maxEpochs minEpochs 0 (init_frame C t) = Inr fr"
    and after: "after_loop C fr = Inr g" by blast
  from run_needs_iteration [OF assms] have pos: "0 < maxEpochs" .
  have start: "frame_after C (nat 0) (init_frame C t) = Inr (init_frame C t)" by simp
  from for_loop_frame_after [OF loop order_refl pos start] obtain n where
    "nat 0 < n \<and> frame_after C n (init_frame C t) = Inr fr" by blast
  then obtain j where "frame_after C (Suc j) (init_frame C t) = Inr fr"
    by (cases n) simp_all
  from frame_after_obj0 [OF this] after_loop_keeps [OF after] show ?thesis by simp
qed

lemma iteration_objective:
  assumes "iteration C ep fr = Inr fr'"
  shows "\<exists>J Jelem q d.
      FE_solve C (FE (topOpt fr)) (nn_rho_of C (topOpt fr) (topNet (topOpt fr))) = Inr J
    \<and> broadcast2 fmul
          (map (\<lambda>r. fmul (Fin (Emax (FE (topOpt fr)))) (lib_pow C r (2 * penal (FE (topOpt fr)))))
             (nn_rho_of C (topOpt fr) (topNet (topOpt fr)))) J = Inr Jelem
    \<and> broadcast2 fdiv Jelem
          (map (\<lambda>r. lib_pow C r (penal (FE (topOpt fr))))
             (nn_rho_of C (topOpt fr) (topNet (topOpt fr)))) = Inr q
    \<and> obj0 (topOpt fr') = Some d
    \<and> objective (topOpt fr') = fdiv (fsum q) d
    \<and> compliance (convergenceHistory (topOpt fr'))
        = compliance (convergenceHistory (topOpt fr)) @ [fdiv (fsum q) d]"
proof -
  from iteration_Inr [OF assms] obtain J o0 Jelem obj where
    J: "FE_solve C (FE (topOpt fr)) (nn_rho_of C (topOpt fr) (topNet (topOpt fr))) = Inr J"
    and Je: "scaled_sensitivity (lib_pow C) (Emax (FE (topOpt fr))) (2 * penal (FE (topOpt fr)))
          (nn_rho_of C (topOpt fr) (topNet (topOpt fr))) J = Inr Jelem"
    and ob: "objective_of (lib_pow C) (penal (FE (topOpt fr))) o0 Jelem
          (nn_rho_of C (topOpt fr) (topNet (topOpt fr))) = Inr obj"
    and o0: "obj0 (topOpt fr') = o0" and obj: "objective (topOpt fr') = obj"
    and h: "compliance (convergenceHistory (topOpt fr'))
              = compliance (convergenceHistory (topOpt fr)) @ [obj]"
    by blast
  from ob obtain q d where
    "broadcast2 fdiv Jelem (map (\<lambda>r. lib_pow C r (penal (FE (topOpt fr))))
          (nn_rho_of C (topOpt fr) (topNet (topOpt fr)))) = Inr q"
    "o0 = Some d" "obj = fdiv (fsum q) d"
    by (auto simp add: objective_of_def compliance_sum_def ebind_Inr_iff split: option.splits)
  with J Je o0 obj h show ?thesis by (auto simp add: scaled_sensitivity_def)
qed

lemma penal_step_fixed: "(min 8.0 (p + 0.02) = (p::real)) = (p = 8)"
  by (auto simp add: min_def)

lemma frame_after_penal:
  assumes "frame_after C n fr0 = Inr f" and "penal (FE (topOpt fr0)) \<le> 8"
  shows "penal (FE (topOpt fr0)) \<le> penal (FE (topOpt f)) \<and> penal (FE (topOpt f)) \<le> 8"
  using assms(1)
proof (induction n arbitrary: f)
  case 0
  with assms(2) show ?case by simp
next
  case (Suc n)
  from frame_after_Suc [OF Suc.prems] obtain f' where
    f': "frame_after C n fr0 = Inr f'" and it: "iteration C (int n) f' = Inr f" by blast
  from Suc.IH [OF f'] iteration_schedule [OF it] show ?case by simp
qed

lemma frame_after_alpha:
  assumes "frame_after C n fr0 = Inr f" and "alpha fr0 \<le> alphaMax (topOpt fr0)"
  shows "alpha fr0 \<le> alpha f \<and> alpha f \<le> alphaMax (topOpt fr0)
       \<and> desiredVolumeFraction (topOpt f) = desiredVolumeFraction (topOpt fr0)"
  using assms(1)
proof (induction n arbitrary: f)
  case 0
  with assms(2) show ?case by simp
next
  case (Suc n)
  from frame_after_Suc [OF Suc.prems] obtain f' where
    f': "frame_after C n fr0 = Inr f'" and it: "iteration C (int n) f' = Inr f" by blast
  from Suc.IH [OF f'] iteration_schedule [OF it] show ?case
    by (simp add: alphaMax_def alphaIncrement_def)
qed

text \<open>The equations that evaluate the model on the example configuration.\<close>

lemmas example_defs = iteration_def init_frame_def example_collaborators_def example_optimizer_def
  nn_rho_of_def projectDensity_def applySymmetry_def ebind_def scaled_sensitivity_def broadcast2_def
  objective_of_def compliance_sum_def volConstraint_of_def loss_of_def greyElements_of_def
  relGreyElements_of_def plotDensity_def fmean_def fsub_def alphaMax_def alphaIncrement_def
  learningRate_def nrmThreshold_def Let_def inf_of_sign_def break_test_def for_loop.simps
  power_divide

section \<open>Properties of the optimization loop\<close>

text \<open>
  C3. The loop of \<open>optimizeDesign\<close> makes at most \<open>maxEpochs\<close> passes through its body:
  when it ends normally it has made some number \<open>n \<le> maxEpochs\<close> of passes, the indices
  \<open>0, \<dots>, n - 1\<close>. It goes on after the iteration with index \<open>k - 1\<close> only if the exit
  condition fails there, and it stops before the cap only if the exit condition holds
  at its last iteration; the exit condition is \<open>epoch > minEpochs\<close> together with a gray
  fraction below 0.025, the fraction being the desired volume fraction times the number
  of elements with density strictly between 0.2 and 0.8, divided by the number of
  elements.
\<close>

theorem for_loop_exit:
  assumes "for_loop C maxEpochs minEpochs 0 (init_frame C t) = Inr fr" and "0 \<le> maxEpochs"
  shows "\<exists>n. int n \<le> maxEpochs \<and> (0 < maxEpochs \<longrightarrow> 1 \<le> n)
           \<and> frame_after C n (init_frame C t) = Inr fr
           \<and> (1 \<le> n \<longrightarrow> epoch fr = Some (int n - 1))
           \<and> (\<forall>k. 1 \<le> k \<and> k < n \<longrightarrow>
                 (\<exists>f. frame_after C k (init_frame C t) = Inr f \<and> epoch f = Some (int k - 1)
                    \<and> \<not> exit_condition_spec minEpochs f))
           \<and> (int n < maxEpochs \<longrightarrow> exit_condition_spec minEpochs fr)"
proof (cases "0 < maxEpochs")
  case False
  with assms(2) have m: "maxEpochs = 0" by simp
  with assms(1) have fr: "fr = init_frame C t" by (simp add: for_loop_done)
  show ?thesis
    by (rule exI [of _ 0]) (simp add: m fr)
next
  case True
  have start: "frame_after C (nat 0) (init_frame C t) = Inr (init_frame C t)" by simp
  from for_loop_frame_after [OF assms(1) order_refl True start]
  obtain n where nn: "nat 0 < n \<and> int n \<le> maxEpochs
    \<and> frame_after C n (init_frame C t) = Inr fr
    \<and> (\<forall>k. nat 0 < k \<and> k < n \<longrightarrow>
                (\<exists>f g. frame_after C k (init_frame C t) = Inr f \<and> relGreyElements f = Some g
                   \<and> \<not> break_test minEpochs (int k - 1) g))
    \<and> (\<exists>g. relGreyElements fr = Some g
                 \<and> (int n < maxEpochs \<longrightarrow> break_test minEpochs (int n - 1) g))"
    by (rule exE)
  from nn have n0: "nat 0 < n" by (rule conjunct1)
  from nn have n1: "int n \<le> maxEpochs" by (elim conjE)
  from nn have n2: "frame_after C n (init_frame C t) = Inr fr" by (elim conjE)
  from nn have mid: "\<forall>k. nat 0 < k \<and> k < n \<longrightarrow>
                (\<exists>f g. frame_after C k (init_frame C t) = Inr f \<and> relGreyElements f = Some g
                   \<and> \<not> break_test minEpochs (int k - 1) g)" by (elim conjE)
  from nn have last: "\<exists>g. relGreyElements fr = Some g
                 \<and> (int n < maxEpochs \<longrightarrow> break_test minEpochs (int n - 1) g)" by (elim conjE)
  from n0 obtain j where j: "n = Suc j" by (cases n) simp_all
  from last obtain g where g: "relGreyElements fr = Some g"
    and gb: "int n < maxEpochs \<longrightarrow> break_test minEpochs (int n - 1) g" by (elim exE conjE)
  from frame_after_exit [OF n2 [unfolded j] g, of minEpochs]
  have ep: "epoch fr = Some (int n - 1)"
    and ex: "break_test minEpochs (int n - 1) g = exit_condition_spec minEpochs fr"
    by (simp_all add: j)
  have mid': "\<exists>f. frame_after C k (init_frame C t) = Inr f \<and> epoch f = Some (int k - 1)
                    \<and> \<not> exit_condition_spec minEpochs f" if k: "1 \<le> k \<and> k < n" for k
  proof -
    from k have "nat 0 < k \<and> k < n" by simp
    with mid obtain f g' where f: "frame_after C k (init_frame C t) = Inr f"
      and g': "relGreyElements f = Some g'"
      and nb: "\<not> break_test minEpochs (int k - 1) g'" by blast
    from k obtain i where i: "k = Suc i" by (cases k) simp_all
    from frame_after_exit [OF f [unfolded i] g', of minEpochs] nb
    have "epoch f = Some (int k - 1) \<and> \<not> exit_condition_spec minEpochs f"
      by (simp add: i)
    with f show ?thesis by (intro exI [of _ f]) simp
  qed
  show ?thesis
  proof (rule exI [of _ n], intro conjI allI impI)
    show "int n \<le> maxEpochs" by (rule n1)
    show "1 \<le> n" using n0 by simp
    show "frame_after C n (init_frame C t) = Inr fr" by (rule n2)
    show "epoch fr = Some (int n - 1)" by (rule ep)
    show "\<exists>f. frame_after C k (init_frame C t) = Inr f \<and> epoch f = Some (int k - 1)
                    \<and> \<not> exit_condition_spec minEpochs f" if "1 \<le> k \<and> k < n" for k
      using that by (rule mid')
    show "exit_condition_spec minEpochs fr" if "int n < maxEpochs"
      using that gb ex by simp
  qed
qed


theorem for_loop_exit_witness:
  "\<exists>fr n. for_loop example_collaborators 3 0 0 (init_frame example_collaborators example_optimizer) = Inr fr
      \<and> frame_after example_collaborators n (init_frame example_collaborators example_optimizer) = Inr fr
      \<and> n = 2 \<and> epoch fr = Some 1 \<and> exit_condition_spec 0 fr"
proof -
  obtain fr where fr: "for_loop example_collaborators 3 0 0
      (init_frame example_collaborators example_optimizer) = Inr fr"
    and ep: "epoch fr = Some 1"
    by (simp add: example_defs)
  have le: "(0::int) \<le> 3" by simp
  from for_loop_exit [OF fr le] obtain n where
    n: "frame_after example_collaborators n (init_frame example_collaborators example_optimizer) = Inr fr"
    and n1: "0 < (3::int) \<longrightarrow> 1 \<le> n"
    and e: "1 \<le> n \<longrightarrow> epoch fr = Some (int n - 1)"
    and x: "int n < 3 \<longrightarrow> exit_condition_spec 0 fr"
    by blast
  from n1 e ep have "n = 2" by simp
  with n ep x fr show ?thesis by simp
qed

text \<open>
  C8. Whenever \<open>optimizeDesign\<close> returns, the three sequences of the returned convergence
  history have the same length, and that length is the number \<open>n\<close> of passes the loop
  made through its body: the loop ended in the state reached after exactly \<open>n\<close> passes,
  with the loop index \<open>n - 1\<close>.
\<close>

theorem history_lengths:
  assumes "optimizeDesign C t maxEpochs minEpochs = Inr h"
  shows "\<exists>fr n. for_loop C maxEpochs minEpochs 0 (init_frame C t) = Inr fr
           \<and> frame_after C n (init_frame C t) = Inr fr
           \<and> 1 \<le> n \<and> int n \<le> maxEpochs \<and> epoch fr = Some (int n - 1)
           \<and> length (compliance h) = n \<and> length (vol h) = n \<and> length (grayElems h) = n"
proof -
  from assms obtain fr' where run: "run C t maxEpochs minEpochs = Inr fr'"
    and h: "h = convergenceHistory (topOpt fr')"
    by (auto simp add: optimizeDesign_def ebind_Inr_iff)
  from run_Inr [OF run] obtain fr where
    loop: "for_loop C maxEpochs minEpochs 0 (init_frame C t) = Inr fr"
    and after: "after_loop C fr = Inr fr'" by blast
  from run_needs_iteration [OF run] have pos: "0 < maxEpochs" .
  have start: "frame_after C (nat 0) (init_frame C t) = Inr (init_frame C t)" by simp
  from for_loop_frame_after [OF loop order_refl pos start] obtain n where
    "nat 0 < n \<and> int n \<le> maxEpochs \<and> frame_after C n (init_frame C t) = Inr fr"
    by blast
  then have n: "int n \<le> maxEpochs" "1 \<le> n" "frame_after C n (init_frame C t) = Inr fr"
    by simp_all
  from n(2) obtain j where j: "n = Suc j" by (cases n) simp_all
  from frame_after_epoch [OF n(3) [unfolded j]] j
  have ep: "epoch fr = Some (int n - 1)" by simp
  from frame_after_history [OF n(3)]
  have "length (compliance (convergenceHistory (topOpt fr))) = n"
    "length (vol (convergenceHistory (topOpt fr))) = n"
    "length (grayElems (convergenceHistory (topOpt fr))) = n"
    by (simp_all add: init_frame_def)
  with after_loop_keeps [OF after] h have
    "length (compliance h) = n \<and> length (vol h) = n \<and> length (grayElems h) = n" by simp
  with loop n ep show ?thesis by blast
qed

theorem history_lengths_witness:
  "\<exists>h fr. optimizeDesign example_collaborators example_optimizer 3 0 = Inr h
     \<and> for_loop example_collaborators 3 0 0 (init_frame example_collaborators example_optimizer) = Inr fr
     \<and> epoch fr = Some 1
     \<and> length (compliance h) = 2 \<and> length (vol h) = 2 \<and> length (grayElems h) = 2"
proof -
  obtain h where h: "optimizeDesign example_collaborators example_optimizer 3 0 = Inr h"
    by (simp add: example_defs optimizeDesign_def run_def after_loop_def)
  from history_lengths [OF h] obtain fr n where
    "for_loop example_collaborators 3 0 0 (init_frame example_collaborators example_optimizer) = Inr fr"
    "epoch fr = Some (int n - 1)"
    "length (compliance h) = n \<and> length (vol h) = n \<and> length (grayElems h) = n"
    by blast
  moreover have "\<exists>fr. for_loop example_collaborators 3 0 0
      (init_frame example_collaborators example_optimizer) = Inr fr \<and> epoch fr = Some 1"
    by (simp add: example_defs)
  ultimately show ?thesis using h by auto
qed

text \<open>
  C10. With \<open>maxEpochs = 0\<close> (or below) the body of the loop never runs, the code after
  the loop reads the unassigned local \<open>rho_np\<close>, and \<open>optimizeDesign\<close> raises instead of
  returning an empty history; every run that returns has \<open>maxEpochs \<ge> 1\<close>.
\<close>

theorem no_epochs_fails:
  "(maxEpochs \<le> 0 \<longrightarrow> optimizeDesign C t maxEpochs minEpochs = Inl UnboundLocalError)
   \<and> (optimizeDesign C t maxEpochs minEpochs = Inr h \<longrightarrow> 1 \<le> maxEpochs)"
proof (intro conjI impI)
  assume "maxEpochs \<le> 0"
  then show "optimizeDesign C t maxEpochs minEpochs = Inl UnboundLocalError"
    by (simp add: optimizeDesign_def run_no_iteration ebind_def)
next
  assume "optimizeDesign C t maxEpochs minEpochs = Inr h"
  then obtain fr where "run C t maxEpochs minEpochs = Inr fr"
    by (auto simp add: optimizeDesign_def ebind_Inr_iff)
  from run_needs_iteration [OF this] show "1 \<le> maxEpochs" by simp
qed

theorem no_epochs_fails_witness:
  "optimizeDesign example_collaborators example_optimizer 0 0 = Inl UnboundLocalError
   \<and> optimizeDesign example_collaborators example_optimizer 1 0
       = Inr \<lparr>compliance = [Fin 1], vol = [Fin (3 / 4)], grayElems = [1 / 4]\<rparr>
   \<and> (1::int) \<le> 1"
proof -
  have h: "optimizeDesign example_collaborators example_optimizer 1 0
       = Inr \<lparr>compliance = [Fin 1], vol = [Fin (3 / 4)], grayElems = [1 / 4]\<rparr>"
    by (simp add: example_defs optimizeDesign_def run_def after_loop_def)
  from no_epochs_fails [of 0 example_collaborators example_optimizer 0]
    no_epochs_fails [of 1 example_collaborators example_optimizer 0
      "\<lparr>compliance = [Fin 1], vol = [Fin (3 / 4)], grayElems = [1 / 4]\<rparr>"] h
  show ?thesis by simp
qed



section \<open>Properties of the objective and of the continuation schedule\<close>






text \<open>
  Started with the exponent 10, the first iteration lowers \<open>FE.penal\<close> to 8; with the
  desired volume fraction 0.0001, \<open>alpha\<close> starts at 0.05, above its cap 0.01, and the
  first iteration lowers it to 0.01.
\<close>

theorem schedule_monotone_counterexample:
  "penal (FE high_penal_optimizer) = 10
   \<and> map_sum id (penal \<circ> FE \<circ> topOpt)
        (iteration example_collaborators 0 (init_frame example_collaborators high_penal_optimizer))
       = Inr 8
   \<and> desiredVolumeFraction small_volume_optimizer = 0.0001
   \<and> alpha (init_frame example_collaborators small_volume_optimizer) = 0.05
   \<and> map_sum id alpha
        (iteration example_collaborators 0 (init_frame example_collaborators small_volume_optimizer))
       = Inr 0.01"
  by (simp add: example_defs high_penal_optimizer_def small_volume_optimizer_def)

text \<open>
  C4, amended. When the initial \<open>FE.penal\<close> is at most 8.0, then after any number of
  iterations \<open>FE.penal\<close> is at least its initial value and at most 8.0, and the next
  iteration does not decrease it. When the desired volume fraction is at least 0.0005
  (so that the initial \<open>alpha\<close> of 0.05 does not exceed \<open>100 * desiredVolumeFraction\<close>),
  then after any number of iterations \<open>alpha\<close> is at least its initial value and at most
  \<open>100 * desiredVolumeFraction\<close>, and the next iteration does not decrease it.
\<close>

theorem schedule_monotone:
  assumes "frame_after C n (init_frame C t) = Inr f"
    and "frame_after C (Suc n) (init_frame C t) = Inr f'"
  shows "(penal (FE t) \<le> 8 \<longrightarrow>
            penal (FE t) \<le> penal (FE (topOpt f))
            \<and> penal (FE (topOpt f)) \<le> penal (FE (topOpt f'))
            \<and> penal (FE (topOpt f')) \<le> 8)
       \<and> (0.0005 \<le> desiredVolumeFraction t \<longrightarrow>
            alphaIncrement \<le> alpha f \<and> alpha f \<le> alpha f'
            \<and> alpha f' \<le> 100 * desiredVolumeFraction t)"
proof (intro conjI impI)
  from assms have it: "iteration C (int n) f = Inr f'" by (simp add: ebind_def)
  {
    assume "penal (FE t) \<le> 8"
    then have p0: "penal (FE (topOpt (init_frame C t))) \<le> 8" by (simp add: init_frame_def)
    from frame_after_penal [OF assms(1) p0]
    show f: "penal (FE t) \<le> penal (FE (topOpt f))" by (simp add: init_frame_def)
    from frame_after_penal [OF assms(1) p0] have f8: "penal (FE (topOpt f)) \<le> 8" by simp
    from frame_after_penal [OF assms(2) p0] show "penal (FE (topOpt f')) \<le> 8" by simp
    from iteration_schedule [OF it] f8
    show "penal (FE (topOpt f)) \<le> penal (FE (topOpt f'))" by simp
  }
  {
    assume "0.0005 \<le> desiredVolumeFraction t"
    then have a0: "alpha (init_frame C t) \<le> alphaMax (topOpt (init_frame C t))"
      by (simp add: init_frame_def alphaMax_def alphaIncrement_def)
    from frame_after_alpha [OF assms(1) a0]
    have fa: "alphaIncrement \<le> alpha f" "alpha f \<le> alphaMax (topOpt f)"
      by (simp_all add: init_frame_def alphaMax_def)
    from fa(1) show "alphaIncrement \<le> alpha f" .
    from frame_after_alpha [OF assms(2) a0]
    show "alpha f' \<le> 100 * desiredVolumeFraction t"
      by (simp add: init_frame_def alphaMax_def)
    from iteration_schedule [OF it] fa
    show "alpha f \<le> alpha f'" by (simp add: alphaIncrement_def)
  }
qed

theorem schedule_monotone_witness:
  "\<exists>f f' s s'.
       frame_after example_collaborators 1 (init_frame example_collaborators example_optimizer) = Inr f
     \<and> frame_after example_collaborators (Suc 1)
          (init_frame example_collaborators example_optimizer) = Inr f'
     \<and> penal (FE example_optimizer) = 2 \<and> desiredVolumeFraction example_optimizer = 0.5
     \<and> penal (FE (topOpt f)) = 2.02 \<and> penal (FE (topOpt f')) = 2.04
     \<and> alpha f = 0.1 \<and> alpha f' = 0.15
     \<and> penal (FE (topOpt f)) \<le> penal (FE (topOpt f')) \<and> penal (FE (topOpt f')) \<le> 8
     \<and> alpha f \<le> alpha f' \<and> alpha f' \<le> 100 * desiredVolumeFraction example_optimizer
     \<and> frame_after example_collaborators 1
          (init_frame example_collaborators small_volume_optimizer) = Inr s
     \<and> frame_after example_collaborators (Suc 1)
          (init_frame example_collaborators small_volume_optimizer) = Inr s'
     \<and> penal (FE small_volume_optimizer) = 2
     \<and> desiredVolumeFraction small_volume_optimizer = 0.0001
     \<and> penal (FE (topOpt s)) \<le> penal (FE (topOpt s')) \<and> penal (FE (topOpt s')) \<le> 8"
proof -
  let ?C = example_collaborators
  obtain f where f: "frame_after ?C 1 (init_frame ?C example_optimizer) = Inr f"
    and vf: "penal (FE (topOpt f)) = 2.02" "alpha f = 0.1"
    by (simp add: example_defs)
  obtain f' where f': "frame_after ?C (Suc 1) (init_frame ?C example_optimizer) = Inr f'"
    and vf': "penal (FE (topOpt f')) = 2.04" "alpha f' = 0.15"
    by (simp add: example_defs)
  obtain s where s: "frame_after ?C 1 (init_frame ?C small_volume_optimizer) = Inr s"
    by (simp add: example_defs small_volume_optimizer_def)
  obtain s' where s': "frame_after ?C (Suc 1) (init_frame ?C small_volume_optimizer) = Inr s'"
    by (simp add: example_defs small_volume_optimizer_def)
  have p: "penal (FE example_optimizer) = 2" "desiredVolumeFraction example_optimizer = 0.5"
    "penal (FE small_volume_optimizer) = 2"
    "desiredVolumeFraction small_volume_optimizer = 0.0001"
    by (simp_all add: example_optimizer_def small_volume_optimizer_def)
  from schedule_monotone [OF f f'] p
  have a: "penal (FE (topOpt f)) \<le> penal (FE (topOpt f'))" "penal (FE (topOpt f')) \<le> 8"
    "alpha f \<le> alpha f'" "alpha f' \<le> 100 * desiredVolumeFraction example_optimizer"
    by simp_all
  from schedule_monotone [OF s s'] p
  have b: "penal (FE (topOpt s)) \<le> penal (FE (topOpt s'))" "penal (FE (topOpt s')) \<le> 8"
    by simp_all
  from f f' s s' vf vf' p a b show ?thesis by blast
qed

section \<open>Properties of the reference objective and of the history\<close>

text \<open>
  Started with \<open>FE.penal = 8.0\<close>, the iterations with the indices 0 and 1 both leave
  \<open>FE.penal\<close> at 8.0: it does not change in every iteration.
\<close>

theorem obj0_assigned_once_counterexample:
  "penal (FE capped_optimizer) = 8
   \<and> map_sum id (penal \<circ> FE \<circ> topOpt)
        (frame_after example_collaborators 1 (init_frame example_collaborators capped_optimizer))
       = Inr 8
   \<and> map_sum id (penal \<circ> FE \<circ> topOpt)
        (frame_after example_collaborators (Suc 1)
           (init_frame example_collaborators capped_optimizer))
       = Inr 8"
  by (simp add: example_defs capped_optimizer_def)


text \<open>
  C2, amended. \<open>obj0\<close> is assigned in the iteration with index 0, with the value
  \<open>sum(Emax * density^penal * sensitivity)\<close> of that iteration's density and
  sensitivities (for sensitivities and powers that are numbers, the real sum), and no
  iteration with another index changes it; so after any number of iterations, and when
  \<open>optimizeDesign\<close> has run to its end, \<open>obj0\<close> still has the value the first iteration
  gave it. Meanwhile \<open>penal\<close> changes in every iteration except one that starts with
  \<open>penal\<close> exactly at its cap 8.0.
\<close>

theorem obj0_assigned_once:
  "(iteration C 0 fr = Inr fr1 \<longrightarrow>
      (\<exists>J v. FE_solve C (FE (topOpt fr)) (nn_rho_of C (topOpt fr) (topNet (topOpt fr))) = Inr J
          \<and> broadcast2 fmul
                (map (\<lambda>r. fmul (Fin (Emax (FE (topOpt fr)))) (lib_pow C r (penal (FE (topOpt fr)))))
                   (nn_rho_of C (topOpt fr) (topNet (topOpt fr)))) J = Inr v
          \<and> obj0 (topOpt fr1) = Some (fsum v)
          \<and> (\<forall>as js.
                map (\<lambda>r. lib_pow C r (penal (FE (topOpt fr))))
                  (nn_rho_of C (topOpt fr) (topNet (topOpt fr))) = map Fin as
                \<and> J = map Fin js \<and> length js = length as \<longrightarrow>
                obj0 (topOpt fr1) = Some (Fin (weighted_sum_spec (Emax (FE (topOpt fr))) as js)))))
   \<and> (iteration C ep fr = Inr fr2 \<longrightarrow>
        (ep \<noteq> 0 \<longrightarrow> obj0 (topOpt fr2) = obj0 (topOpt fr))
        \<and> (penal (FE (topOpt fr2)) = penal (FE (topOpt fr))) = (penal (FE (topOpt fr)) = 8))
   \<and> (frame_after C (Suc n) (init_frame C t) = Inr f \<longrightarrow>
        (\<exists>f1. iteration C 0 (init_frame C t) = Inr f1 \<and> obj0 (topOpt f) = obj0 (topOpt f1)))
   \<and> (run C t maxEpochs minEpochs = Inr g \<longrightarrow>
        (\<exists>f1. iteration C 0 (init_frame C t) = Inr f1 \<and> obj0 (topOpt g) = obj0 (topOpt f1)))"
proof (intro conjI impI)
  define rho where "rho = nn_rho_of C (topOpt fr) (topNet (topOpt fr))"
  define E where "E = Emax (FE (topOpt fr))"
  define p where "p = penal (FE (topOpt fr))"
  assume "iteration C 0 fr = Inr fr1"
  from iteration_obj0_first [OF this] obtain J v where
    J: "FE_solve C (FE (topOpt fr)) rho = Inr J"
    and v: "broadcast2 fmul (map (\<lambda>r. fmul (Fin E) (lib_pow C r p)) rho) J = Inr v"
    and o: "obj0 (topOpt fr1) = Some (fsum v)"
    unfolding rho_def E_def p_def scaled_sensitivity_def by blast
  have "obj0 (topOpt fr1) = Some (Fin (weighted_sum_spec E as js))"
    if a: "map (\<lambda>r. lib_pow C r p) rho = map Fin as \<and> J = map Fin js \<and> length js = length as"
    for as js
  proof -
    from a have a1: "map (\<lambda>r. lib_pow C r p) rho = map Fin as" and a2: "J = map Fin js"
      and a3: "length js = length as" by simp_all
    from weighted_real_sum [where pw = "lib_pow C" and p = p and E = E, OF a1 a2 a3 v] o
    show ?thesis by simp
  qed
  with J v o
  show "\<exists>J v. FE_solve C (FE (topOpt fr)) (nn_rho_of C (topOpt fr) (topNet (topOpt fr))) = Inr J
          \<and> broadcast2 fmul
                (map (\<lambda>r. fmul (Fin (Emax (FE (topOpt fr)))) (lib_pow C r (penal (FE (topOpt fr)))))
                   (nn_rho_of C (topOpt fr) (topNet (topOpt fr)))) J = Inr v
          \<and> obj0 (topOpt fr1) = Some (fsum v)
          \<and> (\<forall>as js.
                map (\<lambda>r. lib_pow C r (penal (FE (topOpt fr))))
                  (nn_rho_of C (topOpt fr) (topNet (topOpt fr))) = map Fin as
                \<and> J = map Fin js \<and> length js = length as \<longrightarrow>
                obj0 (topOpt fr1) = Some (Fin (weighted_sum_spec (Emax (FE (topOpt fr))) as js)))"
    unfolding rho_def E_def p_def by blast
next
  assume it: "iteration C ep fr = Inr fr2"
  from iteration_schedule [OF it]
  show "(penal (FE (topOpt fr2)) = penal (FE (topOpt fr))) = (penal (FE (topOpt fr)) = 8)"
    using penal_step_fixed [of "penal (FE (topOpt fr))"] by simp
  assume ne: "ep \<noteq> 0"
  from iteration_obj0_later [OF it ne] show "obj0 (topOpt fr2) = obj0 (topOpt fr)" .
next
  assume "frame_after C (Suc n) (init_frame C t) = Inr f"
  then show "\<exists>f1. iteration C 0 (init_frame C t) = Inr f1 \<and> obj0 (topOpt f) = obj0 (topOpt f1)"
    by (rule frame_after_obj0)
next
  assume "run C t maxEpochs minEpochs = Inr g"
  then show "\<exists>f1. iteration C 0 (init_frame C t) = Inr f1 \<and> obj0 (topOpt g) = obj0 (topOpt f1)"
    by (rule run_obj0)
qed

theorem obj0_assigned_once_witness:
  "\<exists>f1 f2 g.
      iteration example_collaborators 0 (init_frame example_collaborators example_optimizer) = Inr f1
    \<and> obj0 (topOpt f1) = Some (Fin (weighted_sum_spec 2 [1 / 4, 1] [2, 3]))
    \<and> weighted_sum_spec 2 [1 / 4, 1] [2, 3] = 7
    \<and> iteration example_collaborators 1 f1 = Inr f2
    \<and> obj0 (topOpt f2) = Some (Fin 7)
    \<and> penal (FE (topOpt f1)) \<noteq> 8
    \<and> penal (FE (topOpt f2)) \<noteq> penal (FE (topOpt f1))
    \<and> frame_after example_collaborators (Suc 1)
         (init_frame example_collaborators example_optimizer) = Inr f2
    \<and> run example_collaborators example_optimizer 3 0 = Inr g
    \<and> obj0 (topOpt g) = Some (Fin 7)"
proof -
  let ?C = example_collaborators
  let ?fr = "init_frame example_collaborators example_optimizer"
  obtain f1 where f1: "iteration ?C 0 ?fr = Inr f1"
    and o1: "obj0 (topOpt f1) = Some (Fin 7)" and p1: "penal (FE (topOpt f1)) \<noteq> 8"
    by (simp add: example_defs)
  obtain f2 where f2: "frame_after ?C (Suc 1) ?fr = Inr f2"
    by (simp add: example_defs)
  with f1 have it2: "iteration ?C 1 f1 = Inr f2" by (simp add: ebind_def)
  obtain g where g: "run ?C example_optimizer 3 0 = Inr g"
    by (simp add: example_defs run_def after_loop_def)
  have rho: "nn_rho_of ?C (topOpt ?fr) (topNet (topOpt ?fr)) = [Fin (1 / 2), Fin 1]"
    by (simp add: example_defs)
  have p: "penal (FE (topOpt ?fr)) = 2" and E: "Emax (FE (topOpt ?fr)) = 2"
    by (simp_all add: example_defs)
  have J: "FE_solve ?C (FE (topOpt ?fr)) [Fin (1 / 2), Fin 1] = Inr (map Fin [2, 3])"
    by (simp add: example_defs)
  have pw: "map (\<lambda>r. lib_pow ?C r 2) [Fin (1 / 2), Fin 1] = map Fin [1 / 4, 1]"
    by (simp add: example_defs)
  have w: "weighted_sum_spec 2 [1 / 4, 1] [2, 3] = 7"
    by (simp add: weighted_sum_spec_def)
  from obj0_assigned_once [where C = ?C and fr = ?fr and ?fr1.0 = f1, THEN conjunct1,
      rule_format, OF f1, unfolded rho p E]
  obtain J' where J': "FE_solve ?C (FE (topOpt ?fr)) [Fin (1 / 2), Fin 1] = Inr J'"
    and rd: "\<forall>as js. map (\<lambda>r. lib_pow ?C r 2) [Fin (1 / 2), Fin 1] = map Fin as
                \<and> J' = map Fin js \<and> length js = length as \<longrightarrow>
                obj0 (topOpt f1) = Some (Fin (weighted_sum_spec 2 as js))"
    by blast
  from J J' have "J' = map Fin [2, 3]" by simp
  with rd [rule_format, of "[1 / 4, 1]" "[2, 3]"] pw
  have r1: "obj0 (topOpt f1) = Some (Fin (weighted_sum_spec 2 [1 / 4, 1] [2, 3]))"
    by simp
  from obj0_assigned_once [where C = ?C and fr = f1 and ep = 1 and ?fr2.0 = f2
      and n = 1 and t = example_optimizer and f = f2 and maxEpochs = 3 and minEpochs = 0 and g = g]
    it2 f2 g p1
  have "obj0 (topOpt f2) = obj0 (topOpt f1)"
    "penal (FE (topOpt f2)) \<noteq> penal (FE (topOpt f1))"
    "\<exists>f1. iteration ?C 0 ?fr = Inr f1 \<and> obj0 (topOpt g) = obj0 (topOpt f1)"
    by simp_all
  with f1 o1 it2 f2 g r1 w p1 show ?thesis by auto
qed

text \<open>
  In the example the first iteration has the unnormalized compliance sum 7 and
  \<open>obj0 = 7\<close>; the value it appends to the compliance history is 1, the normalized
  objective, not 7.
\<close>

theorem history_entry_counterexample:
  "Emax (FE example_optimizer) = 2 \<and> penal (FE example_optimizer) = 2
   \<and> nn_rho_of example_collaborators example_optimizer (topNet example_optimizer)
       = [Fin (1 / 2), Fin 1]
   \<and> FE_solve example_collaborators (FE example_optimizer) [Fin (1 / 2), Fin 1]
       = Inr [Fin 2, Fin 3]
   \<and> lib_pow example_collaborators (Fin (1 / 2)) 2 = Fin (1 / 4)
   \<and> lib_pow example_collaborators (Fin 1) 2 = Fin 1
   \<and> weighted_sum_spec 2 [1 / 4, 1] [2, 3] = 7
   \<and> scaled_sensitivity (lib_pow example_collaborators) 2 (2 * 2) [Fin (1 / 2), Fin 1] [Fin 2, Fin 3]
       = Inr [Fin (1 / 4), Fin 6]
   \<and> compliance_sum (lib_pow example_collaborators) 2 [Fin (1 / 4), Fin 6] [Fin (1 / 2), Fin 1]
       = Inr (Fin 7)
   \<and> map_sum id (obj0 \<circ> topOpt)
        (iteration example_collaborators 0 (init_frame example_collaborators example_optimizer))
       = Inr (Some (Fin 7))
   \<and> map_sum id (compliance \<circ> convergenceHistory \<circ> topOpt)
        (iteration example_collaborators 0 (init_frame example_collaborators example_optimizer))
       = Inr [Fin 1]"
  by (simp add: example_defs weighted_sum_spec_def)

text \<open>
  C6, amended. In every iteration that completes, the record appended to the
  convergence history holds the normalized objective of that iteration (the compliance
  sum divided by \<open>obj0\<close>), the current volume fraction (the average of the density over
  the elements) and the gray-element fraction of that iteration.
\<close>

theorem history_entry:
  assumes "iteration C ep fr = Inr fr'"
  shows "\<exists>J Jelem q d.
      FE_solve C (FE (topOpt fr)) (nn_rho_of C (topOpt fr) (topNet (topOpt fr))) = Inr J
    \<and> broadcast2 fmul
          (map (\<lambda>r. fmul (Fin (Emax (FE (topOpt fr)))) (lib_pow C r (2 * penal (FE (topOpt fr)))))
             (nn_rho_of C (topOpt fr) (topNet (topOpt fr)))) J = Inr Jelem
    \<and> broadcast2 fdiv Jelem
          (map (\<lambda>r. lib_pow C r (penal (FE (topOpt fr))))
             (nn_rho_of C (topOpt fr) (topNet (topOpt fr)))) = Inr q
    \<and> obj0 (topOpt fr') = Some d
    \<and> compliance (convergenceHistory (topOpt fr'))
        = compliance (convergenceHistory (topOpt fr)) @ [fdiv (fsum q) d]
    \<and> (\<forall>qs d'. q = map Fin qs \<and> d = Fin d' \<and> d' \<noteq> 0 \<longrightarrow>
          compliance (convergenceHistory (topOpt fr'))
            = compliance (convergenceHistory (topOpt fr)) @ [Fin (sum_list qs / d')])
    \<and> vol (convergenceHistory (topOpt fr'))
        = vol (convergenceHistory (topOpt fr)) @ [fmean (nn_rho_of C (topOpt fr) (topNet (topOpt fr)))]
    \<and> (\<forall>xs. nn_rho_of C (topOpt fr) (topNet (topOpt fr)) = map Fin xs \<longrightarrow>
          vol (convergenceHistory (topOpt fr'))
            = vol (convergenceHistory (topOpt fr)) @ [Fin (volume_fraction_spec xs)])
    \<and> grayElems (convergenceHistory (topOpt fr'))
        = grayElems (convergenceHistory (topOpt fr))
            @ [gray_fraction_spec (desiredVolumeFraction (topOpt fr))
                 (nn_rho_of C (topOpt fr) (topNet (topOpt fr)))]"
proof -
  define rho where "rho = nn_rho_of C (topOpt fr) (topNet (topOpt fr))"
  from iteration_objective [OF assms] obtain J Jelem q d where
    J: "FE_solve C (FE (topOpt fr)) rho = Inr J"
    and Je: "broadcast2 fmul
          (map (\<lambda>r. fmul (Fin (Emax (FE (topOpt fr)))) (lib_pow C r (2 * penal (FE (topOpt fr)))))
             rho) J = Inr Jelem"
    and q: "broadcast2 fdiv Jelem (map (\<lambda>r. lib_pow C r (penal (FE (topOpt fr)))) rho) = Inr q"
    and d: "obj0 (topOpt fr') = Some d"
    and c: "compliance (convergenceHistory (topOpt fr'))
        = compliance (convergenceHistory (topOpt fr)) @ [fdiv (fsum q) d]"
    unfolding rho_def by blast
  from iteration_Inr [OF assms] obtain rel where
    rel: "relGreyElements_of (desiredVolumeFraction (topOpt fr)) rho = Inr rel"
    and v: "vol (convergenceHistory (topOpt fr')) = vol (convergenceHistory (topOpt fr)) @ [fmean rho]"
    and g: "grayElems (convergenceHistory (topOpt fr'))
              = grayElems (convergenceHistory (topOpt fr)) @ [rel]"
    unfolding rho_def by blast
  from relGrey_spec [OF rel] have rs: "rel = gray_fraction_spec (desiredVolumeFraction (topOpt fr)) rho"
    and ne: "rho \<noteq> []" by simp_all
  have cr: "\<forall>qs d'. q = map Fin qs \<and> d = Fin d' \<and> d' \<noteq> 0 \<longrightarrow>
          compliance (convergenceHistory (topOpt fr'))
            = compliance (convergenceHistory (topOpt fr)) @ [Fin (sum_list qs / d')]"
    using c by (simp add: fsum_Fin)
  have vr: "\<forall>xs. rho = map Fin xs \<longrightarrow>
          vol (convergenceHistory (topOpt fr'))
            = vol (convergenceHistory (topOpt fr)) @ [Fin (volume_fraction_spec xs)]"
  proof (intro allI impI)
    fix xs assume x: "rho = map Fin xs"
    with ne have "xs \<noteq> []" by auto
    from fmean_Fin [OF this] x v
    show "vol (convergenceHistory (topOpt fr'))
            = vol (convergenceHistory (topOpt fr)) @ [Fin (volume_fraction_spec xs)]" by simp
  qed
  from J Je q d c cr v vr g rs show ?thesis unfolding rho_def by blast
qed

theorem history_entry_witness:
  "\<exists>fr'.
      iteration example_collaborators 0 (init_frame example_collaborators example_optimizer) = Inr fr'
    \<and> obj0 (topOpt fr') = Some (Fin 7)
    \<and> compliance (convergenceHistory (topOpt fr')) = [Fin (sum_list [1, 6] / 7)]
    \<and> vol (convergenceHistory (topOpt fr')) = [Fin (volume_fraction_spec [1 / 2, 1])]
    \<and> volume_fraction_spec [1 / 2, 1] = 3 / 4
    \<and> grayElems (convergenceHistory (topOpt fr'))
        = [gray_fraction_spec (1 / 2) [Fin (1 / 2), Fin 1]]
    \<and> gray_fraction_spec (1 / 2) [Fin (1 / 2), Fin 1] = 1 / 4"
proof -
  let ?C = example_collaborators
  let ?fr = "init_frame example_collaborators example_optimizer"
  obtain fr' where it: "iteration ?C 0 ?fr = Inr fr'"
    and o: "obj0 (topOpt fr') = Some (Fin 7)"
    by (simp add: example_defs)
  have rho: "nn_rho_of ?C (topOpt ?fr) (topNet (topOpt ?fr)) = [Fin (1 / 2), Fin 1]"
    by (simp add: example_defs)
  have p: "penal (FE (topOpt ?fr)) = 2" and E: "Emax (FE (topOpt ?fr)) = 2"
    and dv: "desiredVolumeFraction (topOpt ?fr) = 1 / 2"
    and h0: "convergenceHistory (topOpt ?fr) = \<lparr>compliance = [], vol = [], grayElems = []\<rparr>"
    by (simp_all add: example_defs)
  from history_entry [OF it, unfolded rho p E dv h0] obtain J Jelem q d where
    J: "FE_solve ?C (FE (topOpt ?fr)) [Fin (1 / 2), Fin 1] = Inr J"
    and Je: "broadcast2 fmul (map (\<lambda>r. fmul (Fin 2) (lib_pow ?C r (2 * 2))) [Fin (1 / 2), Fin 1]) J
               = Inr Jelem"
    and q: "broadcast2 fdiv Jelem (map (\<lambda>r. lib_pow ?C r 2) [Fin (1 / 2), Fin 1]) = Inr q"
    and d: "obj0 (topOpt fr') = Some d"
    and cr: "\<forall>qs d'. q = map Fin qs \<and> d = Fin d' \<and> d' \<noteq> 0 \<longrightarrow>
          compliance (convergenceHistory (topOpt fr')) = [] @ [Fin (sum_list qs / d')]"
    and vr: "\<forall>xs. [Fin (1 / 2), Fin 1] = map Fin xs \<longrightarrow>
          vol (convergenceHistory (topOpt fr')) = [] @ [Fin (volume_fraction_spec xs)]"
    and g: "grayElems (convergenceHistory (topOpt fr'))
              = [] @ [gray_fraction_spec (1 / 2) [Fin (1 / 2), Fin 1]]"
    by (simp only: simp_thms history.simps) blast
  from J have J2: "J = [Fin 2, Fin 3]" by (simp add: example_defs)
  with Je have Je2: "Jelem = [Fin (1 / 4), Fin 6]" by (simp add: example_defs)
  with q have q2: "q = map Fin [1, 6]" by (simp add: example_defs)
  from d o have d2: "d = Fin 7" by simp
  from cr [rule_format, of "[1, 6]" 7] q2 d2
  have c: "compliance (convergenceHistory (topOpt fr')) = [Fin (sum_list [1, 6] / 7)]" by simp
  from vr [rule_format, of "[1 / 2, 1]"]
  have v: "vol (convergenceHistory (topOpt fr')) = [Fin (volume_fraction_spec [1 / 2, 1])]" by simp
  have vv: "volume_fraction_spec [1 / 2, 1] = 3 / 4" by (simp add: volume_fraction_spec_def)
  have gg: "gray_fraction_spec (1 / 2) [Fin (1 / 2), Fin 1] = 1 / 4"
    by (simp add: gray_fraction_spec_def)
  from it o c v vv g gg show ?thesis by auto
qed


end
